theory Spec2Isabelle
  imports Main "HOL-Library.Sublist"
begin

section \<open>The error handler of OWTF (src/owtf/error_handler.py)\<close>

text \<open>
  The class \<^verbatim>\<open>ErrorHandler\<close> is embedded by explicit state passing. A method takes the
  handler's state and returns the pair of its outcome (a returned value or a raised
  exception) and the state afterwards. Every call the handler makes on one of its
  collaborators (the logging module, \<^verbatim>\<open>cprint\<close>, the lifecycle owner, the error
  database, \<^verbatim>\<open>requests.post\<close>) is appended to the field \<open>calls\<close>, in program order.
\<close>

subsection \<open>Exceptions and outcomes\<close>

text \<open>
  The exceptions the methods raise themselves or let through. \<^verbatim>\<open>sys.exit(n)\<close> raises
  \<^verbatim>\<open>SystemExit(n)\<close>; the two abort exceptions of \<^verbatim>\<open>owtf.lib.exceptions\<close> carry the
  partial output they were built with.
\<close>

datatype exn =
    AttributeError
  | TypeError
  | KeyError string
  | ValueError
  | ConnectionError
  | SystemExit int
  | FrameworkAbortException string
  | PluginAbortException string
  | OtherError string

datatype 'a outcome = Return 'a | Raise exn

subsection \<open>Collaborators\<close>

text \<open>The observable calls, with their arguments.\<close>

datatype event =
    LoggingError string
  | LoggingInfo string
  | Cprint string
  | CoreFinish
  | DbErrorAdd string "string option"
  | DbErrorUpdate int string bool string
  | RequestsPost string "(string \<times> string) list" string

text \<open>
  What \<^verbatim>\<open>requests.post\<close> hands back: the status code and the result of \<^verbatim>\<open>.json()\<close>,
  which is the decoded object (a dictionary, kept as an association list read with
  \<open>map_of\<close>) or the exception that \<^verbatim>\<open>.json()\<close> raises on a body that is not JSON.
\<close>

record http_response =
  status_code :: int
  json :: "exn + (string \<times> string) list"

text \<open>
  The collaborators' code is not part of the file under verification, so their
  behaviour is a parameter of every method:
  \<^item> \<open>anonymise_command\<close> is \<^verbatim>\<open>OutputCleaner.anonymise_command\<close>;
  \<^item> \<open>format_exception\<close> is the list of lines
    \<^verbatim>\<open>traceback.format_exception\<close> yields for \<^verbatim>\<open>sys.exc_info()\<close> in the calling context;
  \<^item> \<open>core_finish\<close> is \<^verbatim>\<open>core.finish()\<close>, taking the lifecycle owner to its next state.
    Modelled from the spec: \<^verbatim>\<open>finish()\<close> is the owner's synchronous teardown, which has
    completed when the call returns; the class \<^verbatim>\<open>Core\<close> is not in the file;
  \<^item> \<open>db_error_add\<close> is \<^verbatim>\<open>db_error.add\<close> and \<open>update_after_github_report\<close> is the store's
    method of that name: each returns the store's next state or the exception it raises;
  \<^item> \<open>json_dumps\<close> is \<^verbatim>\<open>json.dumps\<close> on the dictionary of title and body (the title
    may be \<^verbatim>\<open>None\<close>);
  \<^item> \<open>requests_post\<close> is \<^verbatim>\<open>requests.post(url, headers=headers, data=data)\<close>: a response,
    or the exception raised when no response arrives.
\<close>

record ('core, 'db) collaborators =
  anonymise_command :: "string \<Rightarrow> string"
  format_exception :: "string list"
  core_finish :: "'core \<Rightarrow> 'core"
  db_error_add :: "'db \<Rightarrow> string \<Rightarrow> string option \<Rightarrow> exn + 'db"
  update_after_github_report :: "'db \<Rightarrow> int \<Rightarrow> string \<Rightarrow> bool \<Rightarrow> string \<Rightarrow> exn + 'db"
  json_dumps :: "(string \<times> string option) list \<Rightarrow> string"
  requests_post :: "string \<Rightarrow> (string \<times> string) list \<Rightarrow> string \<Rightarrow> exn + http_response"

subsection \<open>The handler's state\<close>

text \<open>
  The attributes of the object: \<open>core\<close>, \<open>db_error\<close> and \<open>config\<close> are \<^verbatim>\<open>None\<close> until
  \<^verbatim>\<open>init()\<close> has run. The configuration is its lookup \<^verbatim>\<open>get_val\<close>. The attribute
  \<^verbatim>\<open>db\<close> is never read by a method and is left out.
\<close>

record ('core, 'db) error_handler =
  command :: string
  core :: "'core option"
  db_error :: "'db option"
  config :: "(string \<Rightarrow> string) option"
  calls :: "event list"

definition emit :: "event \<Rightarrow> ('core, 'db) error_handler \<Rightarrow> ('core, 'db) error_handler" where
  "emit e s = s\<lparr>calls := calls s @ [e]\<rparr>"

text \<open>The calls made between two states: what the later trace has beyond the earlier.\<close>

definition new_calls ::
  "('core, 'db) error_handler \<Rightarrow> ('core, 'db) error_handler \<Rightarrow> event list" where
  "new_calls s s' = drop (length (calls s)) (calls s')"

definition len_padding :: nat where
  "len_padding = 100"

definition padding :: string where
  "padding = ''\<newline>'' @ replicate len_padding (CHR ''_'') @ ''\<newline>\<newline>''"

definition sub_padding :: string where
  "sub_padding = ''\<newline>'' @ replicate len_padding (CHR ''*'') @ ''\<newline>''"

text \<open>\<^verbatim>\<open>__init__\<close>: nothing is wired up yet.\<close>

definition init_handler :: "('core, 'db) error_handler" where
  "init_handler = \<lparr>command = '''', core = None, db_error = None, config = None, calls = []\<rparr>"

definition set_command ::
  "string \<Rightarrow> ('core, 'db) error_handler \<Rightarrow> unit outcome \<times> ('core, 'db) error_handler" where
  "set_command c s = (Return (), s\<lparr>command := c\<rparr>)"

subsection \<open>Aborting\<close>

definition abort_framework ::
  "('core, 'db) collaborators \<Rightarrow> string \<Rightarrow> ('core, 'db) error_handler
     \<Rightarrow> string outcome \<times> ('core, 'db) error_handler" where
  "abort_framework env message s =
     (let message = ''Aborted by Framework: '' @ message;
          s1 = emit (LoggingError message) s
      in case core s1 of
           None \<Rightarrow> (Raise (SystemExit (- 1)), s1)
         | Some c \<Rightarrow>
             (let s2 = (emit CoreFinish s1)\<lparr>core := Some (core_finish env c)\<rparr>
              in (Return message, s2)))"

definition user_abort_message :: "string \<Rightarrow> string" where
  "user_abort_message level =
     ''\<newline>The '' @ level
       @ '' was aborted by the user: Please check the report and plugin output files''"

definition user_abort ::
  "string \<Rightarrow> string \<Rightarrow> ('core, 'db) error_handler
     \<Rightarrow> string outcome \<times> ('core, 'db) error_handler" where
  "user_abort level partial_output s =
     (let s1 = emit (LoggingInfo (user_abort_message level)) s;
          message = user_abort_message level
      in if level = ''Command'' then
           (let option = ''p''
            in if option = ''e'' then (Raise (FrameworkAbortException partial_output), s1)
               else if option = ''p'' then (Raise (PluginAbortException partial_output), s1)
               else (Return message, s1))
         else (Return message, s1))"

subsection \<open>Recording errors\<close>

definition db_not_setup :: string where
  "db_not_setup = ''ERROR: DB is not setup yet: cannot log errors to file!''"

text \<open>
  \<^verbatim>\<open>self.db_error.add(message, trace)\<close> under \<^verbatim>\<open>except AttributeError\<close>: the attribute
  lookup on \<^verbatim>\<open>None\<close> raises \<^verbatim>\<open>AttributeError\<close>, and so may the store; both are caught.
  Any other exception of the store passes through.
\<close>

definition log_error ::
  "('core, 'db) collaborators \<Rightarrow> string \<Rightarrow> string option \<Rightarrow> ('core, 'db) error_handler
     \<Rightarrow> unit outcome \<times> ('core, 'db) error_handler" where
  "log_error env message trace s =
     (case db_error s of
        None \<Rightarrow> (Return (), emit (Cprint db_not_setup) s)
      | Some db \<Rightarrow>
          (let s1 = emit (DbErrorAdd message trace) s
           in case db_error_add env db message trace of
                Inr db' \<Rightarrow> (Return (), s1\<lparr>db_error := Some db'\<rparr>)
              | Inl e \<Rightarrow>
                  if e = AttributeError then (Return (), emit (Cprint db_not_setup) s1)
                  else (Raise e, s1)))"

text \<open>\<^verbatim>\<open>"\n".join(lines)\<close>\<close>

fun join_lines :: "string list \<Rightarrow> string" where
  "join_lines [] = ''''"
| "join_lines [l] = l"
| "join_lines (l # ls) = l @ ''\<newline>'' @ join_lines ls"

text \<open>The text \<^verbatim>\<open>add_new_bug\<close> prints, from the two strings it has anonymised.\<close>

definition bug_output :: "string \<Rightarrow> string \<Rightarrow> string" where
  "bug_output message err_trace =
     ''OWTF BUG: Please report the sanitised information below to help make this better.Thank you''
       @ (''\<newline>Message: '' @ message @ ''\<newline>'')
       @ ''\<newline>Error Trace:''
       @ (''\<newline>'' @ err_trace)
       @ (''\<newline>'' @ padding)"

definition add_new_bug ::
  "('core, 'db) collaborators \<Rightarrow> string \<Rightarrow> ('core, 'db) error_handler
     \<Rightarrow> unit outcome \<times> ('core, 'db) error_handler" where
  "add_new_bug env message s =
     (let err_trace_list = format_exception env;
          err_trace = anonymise_command env (join_lines err_trace_list);
          message = anonymise_command env message;
          output = bug_output message err_trace;
          s1 = emit (Cprint output) s
      in log_error env message (Some err_trace) s1)"

definition add ::
  "('core, 'db) collaborators \<Rightarrow> string \<Rightarrow> string \<Rightarrow> ('core, 'db) error_handler
     \<Rightarrow> unit outcome \<times> ('core, 'db) error_handler" where
  "add env message type s =
     (if type = ''owtf'' then add_new_bug env message s
      else (let output = padding @ message @ sub_padding;
                s1 = emit (Cprint output) s
            in log_error env message None s1))"

subsection \<open>Filing an issue\<close>

text \<open>The method returns \<^verbatim>\<open>False\<close> or the decoded response.\<close>

datatype issue_result = IssueFalse | IssueResponse "(string \<times> string) list"

text \<open>
  In program order: the test for a missing \<^verbatim>\<open>id\<close> or \<open>username\<close>; \<^verbatim>\<open>body += ...\<close>, a
  \<^verbatim>\<open>TypeError\<close> when the body is \<^verbatim>\<open>None\<close>; the two \<^verbatim>\<open>self.config.get_val\<close>, an
  \<^verbatim>\<open>AttributeError\<close> when the configuration is \<^verbatim>\<open>None\<close>; the post; \<^verbatim>\<open>request.json()\<close>;
  and for status 201 the attribute lookup on \<^verbatim>\<open>self.db_error\<close>, the subscript
  \<^verbatim>\<open>response["html_url"]\<close> and the call of the store.
\<close>

definition add_github_issue ::
  "('core, 'db) collaborators \<Rightarrow> string option \<Rightarrow> string option \<Rightarrow> string option \<Rightarrow> int option
     \<Rightarrow> ('core, 'db) error_handler \<Rightarrow> issue_result outcome \<times> ('core, 'db) error_handler" where
  "add_github_issue env username title body id' s =
     (case id' of
        None \<Rightarrow> (Return IssueFalse, s)
      | Some i \<Rightarrow>
     (case username of
        None \<Rightarrow> (Return IssueFalse, s)
      | Some u \<Rightarrow>
     (case body of
        None \<Rightarrow> (Raise TypeError, s)
      | Some b \<Rightarrow>
     (let body = b @ ''\<newline>\<newline>Submitted By - @'' @ u;
          data = json_dumps env [(''title'', title), (''body'', Some body)]
      in case config s of
           None \<Rightarrow> (Raise AttributeError, s)
         | Some get_val \<Rightarrow>
     (let headers = [(''Content-Type'', ''application/json''),
                     (''Authorization'', ''token '' @ get_val ''GITHUB_BUG_REPORTER_TOKEN'')];
          url = get_val ''GITHUB_API_ISSUES_URL'';
          s1 = emit (RequestsPost url headers data) s
      in case requests_post env url headers data of
           Inl e \<Rightarrow> (Raise e, s1)
         | Inr request \<Rightarrow>
     (case json request of
        Inl e \<Rightarrow> (Raise e, s1)
      | Inr response \<Rightarrow>
          if status_code request = 201 then
            (case db_error s1 of
               None \<Rightarrow> (Raise AttributeError, s1)
             | Some db \<Rightarrow>
            (case map_of response ''html_url'' of
               None \<Rightarrow> (Raise (KeyError ''html_url''), s1)
             | Some html_url \<Rightarrow>
                 (let s2 = emit (DbErrorUpdate i body True html_url) s1
                  in case update_after_github_report env db i body True html_url of
                       Inl e \<Rightarrow> (Raise e, s2)
                     | Inr db' \<Rightarrow> (Return (IssueResponse response), s2\<lparr>db_error := Some db'\<rparr>))))
          else (Return (IssueResponse response), s1)))))))"

text \<open>
  Names for the parts of a submission: the body with the attribution line, the call of
  \<^verbatim>\<open>requests.post\<close> as it is recorded, and what the tracker answers to it.
\<close>

definition issue_body :: "string \<Rightarrow> string \<Rightarrow> string" where
  "issue_body b u = b @ ''\<newline>\<newline>Submitted By - @'' @ u"

definition issue_request ::
  "('core, 'db) collaborators \<Rightarrow> (string \<Rightarrow> string) \<Rightarrow> string option \<Rightarrow> string \<Rightarrow> event" where
  "issue_request env get_val title body =
     RequestsPost (get_val ''GITHUB_API_ISSUES_URL'')
       [(''Content-Type'', ''application/json''),
        (''Authorization'', ''token '' @ get_val ''GITHUB_BUG_REPORTER_TOKEN'')]
       (json_dumps env [(''title'', title), (''body'', Some body)])"

definition tracker_reply ::
  "('core, 'db) collaborators \<Rightarrow> (string \<Rightarrow> string) \<Rightarrow> string option \<Rightarrow> string
     \<Rightarrow> exn + http_response" where
  "tracker_reply env get_val title body =
     requests_post env (get_val ''GITHUB_API_ISSUES_URL'')
       [(''Content-Type'', ''application/json''),
        (''Authorization'', ''token '' @ get_val ''GITHUB_BUG_REPORTER_TOKEN'')]
       (json_dumps env [(''title'', title), (''body'', Some body)])"


subsection \<open>A concrete installation\<close>

text \<open>
  Collaborators to run the methods on: a sanitiser that deletes the character \<open>#\<close>, a
  lifecycle owner that counts its \<^verbatim>\<open>finish()\<close> calls, an error database that keeps the
  journal of the operations it received, and a tracker that creates every issue.
\<close>

definition sample_config :: "string \<Rightarrow> string" where
  "sample_config k =
     (if k = ''GITHUB_API_ISSUES_URL'' then ''https://tracker.example/issues'' else ''t0ken'')"

definition sample_env :: "(nat, event list) collaborators" where
  "sample_env =
     \<lparr>anonymise_command = filter (\<lambda>c. c \<noteq> CHR ''#''),
      format_exception = [''Traceback:'', ''ValueError: #key''],
      core_finish = Suc,
      db_error_add = (\<lambda>db m t. Inr (db @ [DbErrorAdd m t])),
      update_after_github_report = (\<lambda>db i b r u. Inr (db @ [DbErrorUpdate i b r u])),
      json_dumps = (\<lambda>d. concat (map (\<lambda>(k, v).
         k @ ''='' @ (case v of None \<Rightarrow> ''null'' | Some x \<Rightarrow> x) @ '';'') d)),
      requests_post = (\<lambda>url headers data.
         Inr \<lparr>status_code = 201,
              json = Inr [(''html_url'', ''https://tracker.example/issues/7'')]\<rparr>)\<rparr>"

text \<open>The handler after \<^verbatim>\<open>init()\<close>, and the same installation with a tracker out of reach,
  a tracker that knows no such repository, and a database that fails.\<close>

definition sample_handler :: "(nat, event list) error_handler" where
  "sample_handler =
     \<lparr>command = '''', core = Some 0, db_error = Some [], config = Some sample_config, calls = []\<rparr>"

definition offline_env :: "(nat, event list) collaborators" where
  "offline_env = sample_env\<lparr>requests_post := (\<lambda>url headers data. Inl ConnectionError)\<rparr>"

definition not_found_env :: "(nat, event list) collaborators" where
  "not_found_env = sample_env\<lparr>requests_post := (\<lambda>url headers data.
     Inr \<lparr>status_code = 404, json = Inr [(''message'', ''Not Found'')]\<rparr>)\<rparr>"



definition failing_db_env :: "(nat, event list) collaborators" where
  "failing_db_env =
     sample_env\<lparr>db_error_add := (\<lambda>db m t. Inl (OtherError ''database is locked''))\<rparr>"

section \<open>Properties\<close>

subsection \<open>Shared facts\<close>

lemma log_error_calls:
  "\<exists>es. calls (snd (log_error env message trace s)) = calls s @ es
     \<and> (es = [DbErrorAdd message trace] \<or> es = [DbErrorAdd message trace, Cprint db_not_setup]
          \<or> es = [Cprint db_not_setup])"
  by (auto simp: log_error_def emit_def Let_def split: option.splits sum.splits)

lemma log_error_db_error:
  "db_error (snd (log_error env message trace s)) = db_error s
   \<or> (\<exists>db db'. db_error s = Some db \<and> db_error_add env db message trace = Inr db'
         \<and> db_error (snd (log_error env message trace s)) = Some db')"
  by (auto simp: log_error_def emit_def Let_def split: option.splits sum.splits)

text \<open>Once both arguments are there and the configuration is wired, the method is at the post.\<close>

lemma add_github_issue_posted:
  assumes "config s = Some get_val"
  shows "add_github_issue env (Some u) title (Some b) (Some i) s =
     (let body = issue_body b u; s1 = emit (issue_request env get_val title body) s
      in case tracker_reply env get_val title body of
           Inl e \<Rightarrow> (Raise e, s1)
         | Inr request \<Rightarrow>
             (case json request of
                Inl e \<Rightarrow> (Raise e, s1)
              | Inr response \<Rightarrow>
                  if status_code request = 201 then
                    (case db_error s of
                       None \<Rightarrow> (Raise AttributeError, s1)
                     | Some db \<Rightarrow>
                         (case map_of response ''html_url'' of
                            None \<Rightarrow> (Raise (KeyError ''html_url''), s1)
                          | Some html_url \<Rightarrow>
                              (let s2 = emit (DbErrorUpdate i body True html_url) s1
                               in case update_after_github_report env db i body True html_url of
                                    Inl e \<Rightarrow> (Raise e, s2)
                                  | Inr db' \<Rightarrow>
                                      (Return (IssueResponse response), s2\<lparr>db_error := Some db'\<rparr>))))
                  else (Return (IssueResponse response), s1)))"
  using assms
  by (simp add: add_github_issue_def issue_body_def issue_request_def tracker_reply_def emit_def
      Let_def split: sum.splits option.splits)

subsection \<open>Reporting a caught error\<close>

text \<open>
  Claim C1. Whatever \<^verbatim>\<open>add_new_bug\<close> writes is made from the sanitiser's output. With
  \<open>message'\<close> and \<open>err_trace\<close> the anonymised message and trace: the calls of
  \<^verbatim>\<open>add_new_bug\<close> extend the trace by the print of the report built from \<open>message'\<close> and
  \<open>err_trace\<close>, followed by the store's \<^verbatim>\<open>add\<close> on exactly that pair, or by the fallback
  notice, or by both; so the first write already carries the sanitised strings. Every
  property \<open>clean\<close> that the sanitiser guarantees of its output (such as holding no
  sensitive marker) holds of the message and of the trace handed to the store, whose
  state changes only through that \<^verbatim>\<open>add\<close>. And a raw message influences the run
  through its anonymised form alone: two messages with the same anonymised form give the
  same outcome and the same state.
\<close>

theorem add_new_bug_writes_sanitised:
  assumes "\<forall>t. clean (anonymise_command env t)"
  shows "let message' = anonymise_command env message;
             err_trace = anonymise_command env (join_lines (format_exception env));
             s' = snd (add_new_bug env message s)
         in calls s' = calls s @ new_calls s s'
            \<and> (new_calls s s' =
                 [Cprint (bug_output message' err_trace), DbErrorAdd message' (Some err_trace)]
               \<or> new_calls s s' =
                 [Cprint (bug_output message' err_trace), DbErrorAdd message' (Some err_trace),
                  Cprint db_not_setup]
               \<or> new_calls s s' = [Cprint (bug_output message' err_trace), Cprint db_not_setup])
            \<and> (\<forall>m t. DbErrorAdd m t \<in> set (new_calls s s') \<longrightarrow>
                  clean m \<and> (\<exists>tr. t = Some tr \<and> clean tr))
            \<and> (db_error s' = db_error s
               \<or> (\<exists>db db'. db_error s = Some db
                     \<and> db_error_add env db message' (Some err_trace) = Inr db'
                     \<and> db_error s' = Some db'))
            \<and> (\<forall>other. anonymise_command env other = message' \<longrightarrow>
                  add_new_bug env other s = add_new_bug env message s)"
proof -
  define message' where "message' = anonymise_command env message"
  define err_trace where "err_trace = anonymise_command env (join_lines (format_exception env))"
  define s1 where "s1 = emit (Cprint (bug_output message' err_trace)) s"
  define s' where "s' = snd (add_new_bug env message s)"
  have run: "add_new_bug env m s =
      log_error env (anonymise_command env m) (Some err_trace)
        (emit (Cprint (bug_output (anonymise_command env m) err_trace)) s)" for m
    by (simp add: add_new_bug_def Let_def err_trace_def)
  have s': "s' = snd (log_error env message' (Some err_trace) s1)"
    by (simp add: s'_def run s1_def message'_def)
  obtain es where es: "calls s' = calls s1 @ es"
    and shape: "es = [DbErrorAdd message' (Some err_trace)]
       \<or> es = [DbErrorAdd message' (Some err_trace), Cprint db_not_setup]
       \<or> es = [Cprint db_not_setup]"
    using log_error_calls [of env message' "Some err_trace" s1] unfolding s' by blast
  have new: "new_calls s s' = Cprint (bug_output message' err_trace) # es"
    using es by (simp add: new_calls_def s1_def emit_def)
  have whole: "calls s' = calls s @ new_calls s s'"
    using es new by (simp add: s1_def emit_def)
  have cleaned: "clean message'" "clean err_trace"
    using assms by (simp_all add: message'_def err_trace_def)
  have stored: "\<forall>m t. DbErrorAdd m t \<in> set (new_calls s s') \<longrightarrow>
      clean m \<and> (\<exists>tr. t = Some tr \<and> clean tr)"
    using shape cleaned unfolding new by auto
  have store: "db_error s' = db_error s
      \<or> (\<exists>db db'. db_error s = Some db
            \<and> db_error_add env db message' (Some err_trace) = Inr db' \<and> db_error s' = Some db')"
    using log_error_db_error [of env message' "Some err_trace" s1] unfolding s'
    by (simp add: s1_def emit_def)
  have same: "\<forall>other. anonymise_command env other = message' \<longrightarrow>
      add_new_bug env other s = add_new_bug env message s"
    by (simp add: run message'_def)
  show ?thesis
    unfolding Let_def message'_def [symmetric] err_trace_def [symmetric] s'_def [symmetric]
    using whole new shape stored store same by blast
qed

text \<open>
  On the sample installation the marker \<open>#\<close> of the message and of the trace is gone
  from what is printed and from what the database receives.
\<close>

theorem add_new_bug_writes_sanitised_witness:
  "(\<forall>t. CHR ''#'' \<notin> set (anonymise_command sample_env t))
   \<and> new_calls sample_handler
        (snd (add_new_bug sample_env ''login #hunter2 failed'' sample_handler)) =
       [Cprint (bug_output ''login hunter2 failed''
                  (''Traceback:'' @ ''\<newline>'' @ ''ValueError: key'')),
        DbErrorAdd ''login hunter2 failed''
          (Some (''Traceback:'' @ ''\<newline>'' @ ''ValueError: key''))]
   \<and> db_error (snd (add_new_bug sample_env ''login #hunter2 failed'' sample_handler)) =
       Some [DbErrorAdd ''login hunter2 failed''
               (Some (''Traceback:'' @ ''\<newline>'' @ ''ValueError: key''))]"
proof -
  have clean: "\<forall>t. CHR ''#'' \<notin> set (anonymise_command sample_env t)"
    by (simp add: sample_env_def)
  show ?thesis
    using clean add_new_bug_writes_sanitised
      [of "\<lambda>t. CHR ''#'' \<notin> set t" sample_env "''login #hunter2 failed''" sample_handler,
       OF clean]
    by (simp add: sample_env_def sample_handler_def add_new_bug_def log_error_def emit_def
        new_calls_def Let_def)
qed

subsection \<open>Aborting the framework\<close>

text \<open>
  Claim C3. With no lifecycle owner (\<open>core\<close> is \<^verbatim>\<open>None\<close>), \<^verbatim>\<open>abort_framework\<close> logs the
  message at error severity and then leaves through \<^verbatim>\<open>sys.exit(-1)\<close>: its outcome is
  \<^verbatim>\<open>SystemExit\<close> with the non-zero status -1 and carries no message, the one call it
  made is the log entry, and the error database is as it was.
\<close>

theorem abort_framework_without_core:
  assumes "core s = None"
  shows "abort_framework env message s =
           (Raise (SystemExit (- 1)),
            emit (LoggingError (''Aborted by Framework: '' @ message)) s)
         \<and> (- 1 :: int) \<noteq> 0
         \<and> new_calls s (snd (abort_framework env message s)) =
             [LoggingError (''Aborted by Framework: '' @ message)]
         \<and> db_error (snd (abort_framework env message s)) = db_error s"
  using assms by (simp add: abort_framework_def emit_def new_calls_def Let_def)

theorem abort_framework_without_core_witness:
  "core (init_handler :: (nat, event list) error_handler) = None
   \<and> abort_framework sample_env ''no targets'' init_handler =
       (Raise (SystemExit (- 1)),
        init_handler\<lparr>calls := [LoggingError ''Aborted by Framework: no targets'']\<rparr>)"
  using abort_framework_without_core [of init_handler sample_env "''no targets''"]
  by (simp add: init_handler_def emit_def)

text \<open>
  Claim C4. With a lifecycle owner, \<^verbatim>\<open>abort_framework\<close> returns the string
  \<^verbatim>\<open>"Aborted by Framework: "\<close> followed by the message, which therefore contains the
  message; its calls are the log entry and then one \<^verbatim>\<open>finish()\<close>, after which the owner
  is in the state \<^verbatim>\<open>finish()\<close> left it in. The outcome is a return, not an exit.
\<close>

theorem abort_framework_with_core:
  assumes "core s = Some c"
  shows "fst (abort_framework env message s) = Return (''Aborted by Framework: '' @ message)
         \<and> sublist message (''Aborted by Framework: '' @ message)
         \<and> new_calls s (snd (abort_framework env message s)) =
             [LoggingError (''Aborted by Framework: '' @ message), CoreFinish]
         \<and> length (filter (\<lambda>e. e = CoreFinish)
                     (new_calls s (snd (abort_framework env message s)))) = 1
         \<and> core (snd (abort_framework env message s)) = Some (core_finish env c)"
proof -
  have "sublist message (''Aborted by Framework: '' @ message)"
    by (rule sublist_append_leftI)
  moreover have "abort_framework env message s =
      (Return (''Aborted by Framework: '' @ message),
       s\<lparr>calls := calls s @ [LoggingError (''Aborted by Framework: '' @ message), CoreFinish],
          core := Some (core_finish env c)\<rparr>)"
    using assms by (simp add: abort_framework_def emit_def Let_def)
  ultimately show ?thesis
    by (simp add: new_calls_def)
qed

theorem abort_framework_with_core_witness:
  "core sample_handler = Some 0
   \<and> abort_framework sample_env ''scan failed'' sample_handler =
       (Return ''Aborted by Framework: scan failed'',
        sample_handler\<lparr>calls := [LoggingError ''Aborted by Framework: scan failed'', CoreFinish],
                        core := Some 1\<rparr>)"
  using abort_framework_with_core [of sample_handler 0 sample_env "''scan failed''"]
  by (simp add: sample_handler_def sample_env_def abort_framework_def emit_def Let_def)

subsection \<open>A user's interrupt\<close>

text \<open>
  Claim C6. For level \<^verbatim>\<open>'Command'\<close> and any partial output, \<^verbatim>\<open>user_abort\<close> raises the
  abort exception built from that very string, after logging the notice.
\<close>

theorem user_abort_command_partial_output:
  "user_abort ''Command'' partial_output s =
     (Raise (PluginAbortException partial_output),
      emit (LoggingInfo (user_abort_message ''Command'')) s)"
  by (simp add: user_abort_def Let_def)

text \<open>
  Claim C7, as stated, fails: for level \<^verbatim>\<open>'Command'\<close> the method leaves through the
  raise and the line \<^verbatim>\<open>return message\<close> is not reached, so the caller gets no notice
  string.
\<close>

theorem user_abort_command_does_not_return:
  "fst (user_abort ''Command'' ''partial'' (init_handler :: (nat, event list) error_handler))
     = Raise (PluginAbortException ''partial'')
   \<and> fst (user_abort ''Command'' ''partial'' (init_handler :: (nat, event list) error_handler))
     \<noteq> Return (user_abort_message ''Command'')"
  by (simp add: user_abort_def Let_def)

text \<open>
  Claim C7, amended. For every level other than \<^verbatim>\<open>'Command'\<close>, \<^verbatim>\<open>user_abort\<close> returns the
  notice, which names the level. For \<^verbatim>\<open>'Command'\<close> it raises the plugin abort instead of
  returning. In both cases the notice is logged at info severity, and that is the only
  call made.
\<close>

theorem user_abort_notice:
  "(level \<noteq> ''Command'' \<longrightarrow>
      user_abort level partial_output s =
        (Return (user_abort_message level), emit (LoggingInfo (user_abort_message level)) s))
   \<and> (level = ''Command'' \<longrightarrow>
      fst (user_abort level partial_output s) = Raise (PluginAbortException partial_output))
   \<and> new_calls s (snd (user_abort level partial_output s)) =
       [LoggingInfo (user_abort_message level)]
   \<and> sublist level (user_abort_message level)"
proof -
  have "sublist level (user_abort_message level)"
    unfolding user_abort_message_def by (rule sublist_appendI)
  then show ?thesis
    by (simp add: user_abort_def Let_def emit_def new_calls_def)
qed

theorem user_abort_notice_witness:
  "''Plugin'' \<noteq> ''Command''
   \<and> user_abort ''Plugin'' ''partial'' (init_handler :: (nat, event list) error_handler) =
       (Return ''\<newline>The Plugin was aborted by the user: Please check the report and plugin output files'',
        init_handler\<lparr>calls := [LoggingInfo
          ''\<newline>The Plugin was aborted by the user: Please check the report and plugin output files'']\<rparr>)
   \<and> fst (user_abort ''Command'' ''partial'' (init_handler :: (nat, event list) error_handler))
       = Raise (PluginAbortException ''partial'')"
  using user_abort_notice
          [of "''Plugin''" "''partial''" "init_handler :: (nat, event list) error_handler"]
        user_abort_notice
          [of "''Command''" "''partial''" "init_handler :: (nat, event list) error_handler"]
  by (simp add: user_abort_message_def emit_def init_handler_def)

text \<open>
  Claim C8. For level \<^verbatim>\<open>'Command'\<close> the outcome is always the plugin abort carrying the
  partial output, and no call of \<^verbatim>\<open>user_abort\<close>, whatever its level, output and state,
  ends in the framework abort: the variable \<^verbatim>\<open>option\<close> is the constant \<^verbatim>\<open>'p'\<close>.
\<close>

theorem user_abort_command_always_plugin_abort:
  "fst (user_abort ''Command'' partial_output s) = Raise (PluginAbortException partial_output)
   \<and> (\<forall>level p t q.
         fst (user_abort level p (t :: ('core, 'db) error_handler))
           \<noteq> Raise (FrameworkAbortException q))"
  by (simp add: user_abort_def Let_def)

subsection \<open>Dispatch on the type of an error\<close>




subsection \<open>Filing an issue with the tracker\<close>

text \<open>
  Claim C10. When \<^verbatim>\<open>id\<close> or \<^verbatim>\<open>username\<close> is \<^verbatim>\<open>None\<close>, \<^verbatim>\<open>add_github_issue\<close> returns
  \<^verbatim>\<open>False\<close> and leaves the whole state as it was: no call is made, neither the post nor
  any on the error database.
\<close>

theorem add_github_issue_missing_argument:
  assumes "id' = None \<or> username = None"
  shows "add_github_issue env username title body id' s = (Return IssueFalse, s)
         \<and> new_calls s (snd (add_github_issue env username title body id' s)) = []"
  using assms by (auto simp: add_github_issue_def new_calls_def split: option.splits)

theorem add_github_issue_missing_argument_witness:
  "((None :: int option) = None \<or> Some ''bob'' = None)
   \<and> (Some (3 :: int) = None \<or> (None :: string option) = None)
   \<and> add_github_issue sample_env (Some ''bob'') (Some ''crash'') (Some ''details'') None
        sample_handler
       = (Return IssueFalse, sample_handler)
   \<and> add_github_issue sample_env None (Some ''crash'') (Some ''details'') (Some 3)
        sample_handler
       = (Return IssueFalse, sample_handler)"
  using add_github_issue_missing_argument
          [of None "Some ''bob''" sample_env "Some ''crash''" "Some ''details''" sample_handler]
        add_github_issue_missing_argument
          [of "Some 3" None sample_env "Some ''crash''" "Some ''details''" sample_handler]
  by simp




subsection \<open>Failures while reporting\<close>

text \<open>
  Claim C5, as stated, fails: nothing in \<^verbatim>\<open>add_github_issue\<close> intercepts an exception,
  and \<^verbatim>\<open>log_error\<close> intercepts \<^verbatim>\<open>AttributeError\<close> alone. With the tracker out of reach,
  the exception of \<^verbatim>\<open>requests.post\<close> leaves \<^verbatim>\<open>add_github_issue\<close>; with a database whose
  \<^verbatim>\<open>add\<close> fails with another exception, that exception leaves \<^verbatim>\<open>log_error\<close>, and no
  fallback notice is printed.
\<close>

theorem reporting_failures_can_raise:
  "fst (add_github_issue offline_env (Some ''bob'') (Some ''crash'') (Some ''details'') (Some 3)
         sample_handler) = Raise ConnectionError
   \<and> log_error failing_db_env ''boom'' None sample_handler =
       (Raise (OtherError ''database is locked''),
        sample_handler\<lparr>calls := [DbErrorAdd ''boom'' None]\<rparr>)"
  by (simp add: add_github_issue_def log_error_def offline_env_def failing_db_env_def
      sample_env_def sample_handler_def emit_def Let_def)

text \<open>
  Claim C5, amended. \<^verbatim>\<open>log_error\<close> does not raise when the error database is not
  initialised (\<open>db_error\<close> is \<^verbatim>\<open>None\<close>) or when its \<^verbatim>\<open>add\<close> raises \<^verbatim>\<open>AttributeError\<close>: it
  prints the fallback notice and returns. \<^verbatim>\<open>add_github_issue\<close> returns a decoded response
  of any status other than 201 to its caller as data. Other failures are not intercepted:
  any other exception of the store's \<^verbatim>\<open>add\<close> leaves \<^verbatim>\<open>log_error\<close>, and an exception of
  the post leaves \<^verbatim>\<open>add_github_issue\<close>.
\<close>

theorem reporting_failures_handled:
  "(db_error s = None \<longrightarrow>
      log_error env message trace s = (Return (), emit (Cprint db_not_setup) s))
   \<and> (db_error s = Some db \<and> db_error_add env db message trace = Inl AttributeError \<longrightarrow>
      log_error env message trace s =
        (Return (), emit (Cprint db_not_setup) (emit (DbErrorAdd message trace) s)))
   \<and> (db_error s = Some db \<and> db_error_add env db message trace = Inl e \<and> e \<noteq> AttributeError \<longrightarrow>
      log_error env message trace s = (Raise e, emit (DbErrorAdd message trace) s))
   \<and> (config s = Some get_val \<and> tracker_reply env get_val title (issue_body b u) = Inr request
        \<and> json request = Inr response \<and> status_code request \<noteq> 201 \<longrightarrow>
      fst (add_github_issue env (Some u) title (Some b) (Some i) s) =
        Return (IssueResponse response))
   \<and> (config s = Some get_val \<and> tracker_reply env get_val title (issue_body b u) = Inl e' \<longrightarrow>
      fst (add_github_issue env (Some u) title (Some b) (Some i) s) = Raise e')"
proof -
  have store: "(db_error s = None \<longrightarrow>
        log_error env message trace s = (Return (), emit (Cprint db_not_setup) s))
     \<and> (db_error s = Some db \<and> db_error_add env db message trace = Inl AttributeError \<longrightarrow>
        log_error env message trace s =
          (Return (), emit (Cprint db_not_setup) (emit (DbErrorAdd message trace) s)))
     \<and> (db_error s = Some db \<and> db_error_add env db message trace = Inl e \<and> e \<noteq> AttributeError \<longrightarrow>
        log_error env message trace s = (Raise e, emit (DbErrorAdd message trace) s))"
    by (simp add: log_error_def Let_def)
  have tracker: "fst (add_github_issue env (Some u) title (Some b) (Some i) s) =
        Return (IssueResponse response)"
    if "config s = Some get_val" "tracker_reply env get_val title (issue_body b u) = Inr request"
      "json request = Inr response" "status_code request \<noteq> 201"
    using that by (simp add: add_github_issue_posted Let_def)
  have network: "fst (add_github_issue env (Some u) title (Some b) (Some i) s) = Raise e'"
    if "config s = Some get_val" "tracker_reply env get_val title (issue_body b u) = Inl e'"
    using that by (simp add: add_github_issue_posted Let_def)
  show ?thesis
    using store tracker network by blast
qed

text \<open>
  The handler before \<^verbatim>\<open>init()\<close> prints the fallback notice; on the sample installation a
  response with status 404 comes back as data, a failing database and a tracker out of
  reach raise.
\<close>

theorem reporting_failures_handled_witness:
  "db_error (init_handler :: (nat, event list) error_handler) = None
   \<and> log_error sample_env ''boom'' None init_handler =
       (Return (), init_handler\<lparr>calls := [Cprint db_not_setup]\<rparr>)
   \<and> db_error_add failing_db_env [] ''boom'' None = Inl (OtherError ''database is locked'')
   \<and> fst (log_error failing_db_env ''boom'' None sample_handler) =
       Raise (OtherError ''database is locked'')
   \<and> tracker_reply not_found_env sample_config (Some ''crash'') (issue_body ''details'' ''bob'') =
       Inr \<lparr>status_code = 404, json = Inr [(''message'', ''Not Found'')]\<rparr>
   \<and> fst (add_github_issue not_found_env (Some ''bob'') (Some ''crash'') (Some ''details'')
           (Some 3) sample_handler) = Return (IssueResponse [(''message'', ''Not Found'')])
   \<and> tracker_reply offline_env sample_config (Some ''crash'') (issue_body ''details'' ''bob'') =
       Inl ConnectionError
   \<and> fst (add_github_issue offline_env (Some ''bob'') (Some ''crash'') (Some ''details'')
           (Some 3) sample_handler) = Raise ConnectionError"
proof -
  let ?missing = "\<lparr>status_code = 404, json = Inr [(''message'', ''Not Found'')]\<rparr>"
  have none: "db_error (init_handler :: (nat, event list) error_handler) = None"
    by (simp add: init_handler_def)
  have cfg: "config sample_handler = Some sample_config"
    and db: "db_error sample_handler = Some []"
    by (simp_all add: sample_handler_def)
  have locked: "db_error_add failing_db_env [] ''boom'' None =
      Inl (OtherError ''database is locked'')"
    by (simp add: failing_db_env_def)
  have r404: "tracker_reply not_found_env sample_config (Some ''crash'')
                (issue_body ''details'' ''bob'') = Inr ?missing"
    by (simp add: tracker_reply_def not_found_env_def)
  have off: "tracker_reply offline_env sample_config (Some ''crash'')
               (issue_body ''details'' ''bob'') = Inl ConnectionError"
    by (simp add: tracker_reply_def offline_env_def)
  have "log_error sample_env ''boom'' None init_handler =
      (Return (), init_handler\<lparr>calls := [Cprint db_not_setup]\<rparr>)"
    using none reporting_failures_handled
      [of "init_handler :: (nat, event list) error_handler" sample_env "''boom''" None]
    by (simp add: emit_def init_handler_def)
  moreover have "fst (log_error failing_db_env ''boom'' None sample_handler) =
      Raise (OtherError ''database is locked'')"
    using db locked reporting_failures_handled
      [of sample_handler failing_db_env "''boom''" None "[]" "OtherError ''database is locked''"]
    by simp
  moreover have "fst (add_github_issue not_found_env (Some ''bob'') (Some ''crash'')
      (Some ''details'') (Some 3) sample_handler) = Return (IssueResponse [(''message'', ''Not Found'')])"
    using cfg r404 reporting_failures_handled
      [where s = sample_handler and env = not_found_env and get_val = sample_config
         and title = "Some ''crash''" and b = "''details''" and u = "''bob''"
         and request = ?missing and response = "[(''message'', ''Not Found'')]" and i = 3]
    by simp
  moreover have "fst (add_github_issue offline_env (Some ''bob'') (Some ''crash'')
      (Some ''details'') (Some 3) sample_handler) = Raise ConnectionError"
    using cfg off reporting_failures_handled
      [where s = sample_handler and env = offline_env and get_val = sample_config
         and title = "Some ''crash''" and b = "''details''" and u = "''bob''"
         and e' = ConnectionError and i = 3]
    by simp
  ultimately show ?thesis
    using none locked r404 off by simp
qed


end
